theory Spec2Isabelle
  imports Complex_Main
begin

section \<open>JavaScript numbers\<close>

text \<open>
  The module \<^verbatim>\<open>gpu-grid-utils.js\<close> computes on JavaScript numbers. A number is
  either finite, one of the two infinities, or NaN. Finite values are carried as exact
  reals, and the two zeros \<^verbatim>\<open>+0\<close> and \<^verbatim>\<open>-0\<close> are one value. The
  operators of this section compute exactly: the rounding and the overflow of IEEE-754
  doubles are not part of them, and what is proved with them is a statement of exact
  arithmetic. The rounded operators, for the one property that rounding decides, are in
  the section on double precision. The operators follow ECMAScript on the non-finite values.
\<close>

datatype num = Fin real | PInf | NInf | NaN

text \<open>\<^verbatim>\<open>Number.isFinite\<close>.\<close>

fun isFinite :: "num \<Rightarrow> bool" where
  "isFinite (Fin _) = True"
| "isFinite _ = False"

text \<open>Unary minus.\<close>

fun jneg :: "num \<Rightarrow> num" where
  "jneg (Fin a) = Fin (- a)"
| "jneg PInf = NInf"
| "jneg NInf = PInf"
| "jneg NaN = NaN"

text \<open>\<^verbatim>\<open>a + b\<close>: opposite infinities add up to NaN.\<close>

fun jadd :: "num \<Rightarrow> num \<Rightarrow> num" where
  "jadd (Fin a) (Fin b) = Fin (a + b)"
| "jadd NaN _ = NaN"
| "jadd _ NaN = NaN"
| "jadd PInf NInf = NaN"
| "jadd NInf PInf = NaN"
| "jadd PInf _ = PInf"
| "jadd _ PInf = PInf"
| "jadd NInf _ = NInf"
| "jadd _ NInf = NInf"

text \<open>\<^verbatim>\<open>a - b\<close>.\<close>

definition jsub :: "num \<Rightarrow> num \<Rightarrow> num" where
  "jsub a b = jadd a (jneg b)"

text \<open>An infinity of the given sign (\<open>True\<close> is positive).\<close>

definition inf_of :: "bool \<Rightarrow> num" where
  "inf_of pos = (if pos then PInf else NInf)"

text \<open>\<^verbatim>\<open>a * b\<close>: an infinity times zero is NaN.\<close>

fun jmul :: "num \<Rightarrow> num \<Rightarrow> num" where
  "jmul (Fin a) (Fin b) = Fin (a * b)"
| "jmul NaN _ = NaN"
| "jmul _ NaN = NaN"
| "jmul PInf (Fin b) = (if b = 0 then NaN else inf_of (0 < b))"
| "jmul NInf (Fin b) = (if b = 0 then NaN else inf_of (b < 0))"
| "jmul (Fin a) PInf = (if a = 0 then NaN else inf_of (0 < a))"
| "jmul (Fin a) NInf = (if a = 0 then NaN else inf_of (a < 0))"
| "jmul PInf PInf = PInf"
| "jmul NInf NInf = PInf"
| "jmul PInf NInf = NInf"
| "jmul NInf PInf = NInf"

text \<open>
  \<^verbatim>\<open>a / b\<close>: a non-zero finite value over zero is an infinity, zero over zero
  and an infinity over an infinity are NaN, a finite value over an infinity is zero.
\<close>

fun jdiv :: "num \<Rightarrow> num \<Rightarrow> num" where
  "jdiv (Fin a) (Fin b) =
     (if b = 0 then (if a = 0 then NaN else inf_of (0 < a)) else Fin (a / b))"
| "jdiv NaN _ = NaN"
| "jdiv _ NaN = NaN"
| "jdiv (Fin a) PInf = Fin 0"
| "jdiv (Fin a) NInf = Fin 0"
| "jdiv PInf (Fin b) = inf_of (0 \<le> b)"
| "jdiv NInf (Fin b) = inf_of (b < 0)"
| "jdiv PInf PInf = NaN"
| "jdiv PInf NInf = NaN"
| "jdiv NInf PInf = NaN"
| "jdiv NInf NInf = NaN"

text \<open>\<^verbatim>\<open>a < b\<close>: every comparison with NaN is false.\<close>

fun jlt :: "num \<Rightarrow> num \<Rightarrow> bool" where
  "jlt (Fin a) (Fin b) = (a < b)"
| "jlt NaN _ = False"
| "jlt _ NaN = False"
| "jlt NInf NInf = False"
| "jlt NInf _ = True"
| "jlt PInf _ = False"
| "jlt (Fin a) PInf = True"
| "jlt (Fin a) NInf = False"

text \<open>\<^verbatim>\<open>a > b\<close>.\<close>

definition jgt :: "num \<Rightarrow> num \<Rightarrow> bool" where
  "jgt a b = jlt b a"

text \<open>\<^verbatim>\<open>Math.abs\<close>, \<^verbatim>\<open>Math.floor\<close>, \<^verbatim>\<open>Math.ceil\<close>, \<^verbatim>\<open>Math.cos\<close>.\<close>

fun Math_abs :: "num \<Rightarrow> num" where
  "Math_abs (Fin a) = Fin \<bar>a\<bar>"
| "Math_abs PInf = PInf"
| "Math_abs NInf = PInf"
| "Math_abs NaN = NaN"

fun Math_floor :: "num \<Rightarrow> num" where
  "Math_floor (Fin a) = Fin (of_int \<lfloor>a\<rfloor>)"
| "Math_floor x = x"

fun Math_ceil :: "num \<Rightarrow> num" where
  "Math_ceil (Fin a) = Fin (of_int \<lceil>a\<rceil>)"
| "Math_ceil x = x"

fun Math_cos :: "num \<Rightarrow> num" where
  "Math_cos (Fin a) = Fin (cos a)"
| "Math_cos _ = NaN"

definition Math_PI :: num where
  "Math_PI = Fin pi"

section \<open>The grid utilities\<close>

text \<open>
  Names are the source's, without the leading underscore of the private functions
  (\<^verbatim>\<open>_parseData\<close> is \<open>parseData\<close>). JavaScript arrays of fixed length
  two or three are tuples.
\<close>

definition R_EARTH :: num where
  "R_EARTH = Fin 6378000"

text \<open>\<^verbatim>\<open>alignToCellBoundary(inValue, cellSize)\<close>.\<close>

definition alignToCellBoundary :: "num \<Rightarrow> num \<Rightarrow> num" where
  "alignToCellBoundary inValue cellSize =
     (let sign = (if jlt inValue (Fin 0) then Fin (- 1) else Fin 1);
          value = (if jlt sign (Fin 0) then jadd (Math_abs inValue) cellSize
                   else Math_abs inValue);
          value = jmul (Math_floor (jdiv value cellSize)) cellSize
      in jmul value sign)"

text \<open>\<^verbatim>\<open>_calculateLatOffset(dy)\<close> and \<^verbatim>\<open>_calculateLonOffset(lat, dx)\<close>.\<close>

definition calculateLatOffset :: "num \<Rightarrow> num" where
  "calculateLatOffset dy = jmul (jdiv dy R_EARTH) (jdiv (Fin 180) Math_PI)"

definition calculateLonOffset :: "num \<Rightarrow> num \<Rightarrow> num" where
  "calculateLonOffset lat dx =
     jdiv (jmul (jdiv dx R_EARTH) (jdiv (Fin 180) Math_PI))
          (Math_cos (jdiv (jmul lat Math_PI) (Fin 180)))"

record gridOffset =
  yOffset :: num
  xOffset :: num

text \<open>\<^verbatim>\<open>_calculateGridLatLonOffset(cellSize, latitude)\<close>.\<close>

definition calculateGridLatLonOffset :: "num \<Rightarrow> num \<Rightarrow> gridOffset" where
  "calculateGridLatLonOffset cellSize latitude =
     (let yOffset = calculateLatOffset cellSize;
          xOffset = calculateLonOffset latitude cellSize
      in \<lparr>yOffset = yOffset, xOffset = xOffset\<rparr>)"

text \<open>
  The object \<^verbatim>\<open>_parseData\<close> returns; during the loop the same record is the
  loop's state.
\<close>

record gridData =
  positions :: "num list"
  positions64xyLow :: "num list"
  weights :: "num list"
  latMin :: num
  latMax :: num
  lngMin :: num
  lngMax :: num

text \<open>\<^verbatim>\<open>_getGridOffset(gridData, cellSize)\<close>.\<close>

definition getGridOffset :: "gridData \<Rightarrow> num \<Rightarrow> gridOffset" where
  "getGridOffset gridData cellSize =
     (let centerLat = jdiv (jadd (latMin gridData) (latMax gridData)) (Fin 2)
      in calculateGridLatLonOffset cellSize centerLat)"

text \<open>
  One iteration of the loop of \<^verbatim>\<open>_parseData\<close>. The accessor
  \<open>getPosition\<close> returns the pair \<^verbatim>\<open>[lng, lat]\<close>;
  \<open>fp64LowPart\<close> is the function of that name imported from luma.gl.
  \<^verbatim>\<open>push\<close> appends at the end.
\<close>

definition parseStep ::
  "(num \<Rightarrow> num) \<Rightarrow> ('p \<Rightarrow> num \<times> num) \<Rightarrow> 'p \<Rightarrow> gridData \<Rightarrow> gridData" where
  "parseStep fp64LowPart getPosition d s =
     (let pLng = fst (getPosition d);
          pLat = snd (getPosition d);
          s = s\<lparr>positions := positions s @ [pLng, pLat]\<rparr>;
          s = s\<lparr>positions64xyLow :=
                  positions64xyLow s @ [fp64LowPart pLng, fp64LowPart pLat]\<rparr>;
          s = s\<lparr>weights := weights s @ [Fin 1]\<rparr>
      in if isFinite pLat \<and> isFinite pLng then
           s\<lparr>latMin := (if jlt pLat (latMin s) then pLat else latMin s),
             latMax := (if jgt pLat (latMax s) then pLat else latMax s),
             lngMin := (if jlt pLng (lngMin s) then pLng else lngMin s),
             lngMax := (if jgt pLng (lngMax s) then pLng else lngMax s)\<rparr>
         else s)"

text \<open>The loop \<^verbatim>\<open>for (let p = 0; p < data.length; p++)\<close>, front to back.\<close>

fun parseLoop ::
  "(num \<Rightarrow> num) \<Rightarrow> ('p \<Rightarrow> num \<times> num) \<Rightarrow> 'p list \<Rightarrow> gridData \<Rightarrow> gridData" where
  "parseLoop fp64LowPart getPosition [] s = s"
| "parseLoop fp64LowPart getPosition (d # ds) s =
     parseLoop fp64LowPart getPosition ds (parseStep fp64LowPart getPosition d s)"

text \<open>\<^verbatim>\<open>_parseData(data, getPosition)\<close>.\<close>

definition parseData ::
  "(num \<Rightarrow> num) \<Rightarrow> 'p list \<Rightarrow> ('p \<Rightarrow> num \<times> num) \<Rightarrow> gridData" where
  "parseData fp64LowPart data getPosition =
     parseLoop fp64LowPart getPosition data
       \<lparr>positions = [], positions64xyLow = [], weights = [],
        latMin = PInf, latMax = NInf, lngMin = PInf, lngMax = NInf\<rparr>"

text \<open>
  The bounding box of a scan, \<open>(latMin, latMax, lngMin, lngMax)\<close>: the four fields
  the properties below compare.
\<close>

definition bounds :: "gridData \<Rightarrow> num \<times> num \<times> num \<times> num" where
  "bounds s = (latMin s, latMax s, lngMin s, lngMax s)"

text \<open>The object \<^verbatim>\<open>_getGPUAggregationParams\<close> returns.\<close>

record 'm opts =
  positions :: "num list"
  positions64xyLow :: "num list"
  weights :: "num list"
  cellSize :: "num \<times> num"
  gridOrigin :: "num \<times> num"
  width :: num
  height :: num
  gridTransformMatrix :: 'm
  gridOffset :: gridOffset

text \<open>
  \<^verbatim>\<open>_getGPUAggregationParams(gridData, gridOffset)\<close>. The parameter
  \<open>translate\<close> is \<^verbatim>\<open>new Matrix4().translate\<close> of math.gl; the
  second argument is primed because \<open>gridOffset\<close> is also a field name.
\<close>

definition getGPUAggregationParams ::
  "(num \<times> num \<times> num \<Rightarrow> 'm) \<Rightarrow> gridData \<Rightarrow> gridOffset \<Rightarrow> 'm opts" where
  "getGPUAggregationParams translate gridData gridOffset' =
     (let gridOffset = gridOffset';
          originY = jsub (alignToCellBoundary (jadd (latMin gridData) (Fin 90))
                            (yOffset gridOffset)) (Fin 90);
          originX = jsub (alignToCellBoundary (jadd (lngMin gridData) (Fin 180))
                            (xOffset gridOffset)) (Fin 180);
          gridTransformMatrix =
            translate (jmul (Fin (- 1)) originX, jmul (Fin (- 1)) originY, Fin 0);
          cellSize = (xOffset gridOffset, yOffset gridOffset);
          gridOrigin = (originX, originY);
          width = jadd (jsub (lngMax gridData) (lngMin gridData)) (xOffset gridOffset);
          height = jadd (jsub (latMax gridData) (latMin gridData)) (yOffset gridOffset)
      in \<lparr>positions = gridData.positions gridData,
          positions64xyLow = gridData.positions64xyLow gridData,
          weights = gridData.weights gridData,
          cellSize = cellSize,
          gridOrigin = gridOrigin,
          width = width,
          height = height,
          gridTransformMatrix = gridTransformMatrix,
          gridOffset = gridOffset\<rparr>)"

text \<open>The argument and the result of \<^verbatim>\<open>gpuGridAggregator.run\<close>.\<close>

record 'm runArgs =
  positions :: "num list"
  positions64xyLow :: "num list"
  weights :: "num list"
  cellSize :: "num \<times> num"
  width :: num
  height :: num
  gridTransformMatrix :: 'm
  useGPU :: bool
  fp64 :: bool

record 'b aggregatedData =
  countsBuffer :: 'b
  maxCountBuffer :: 'b

text \<open>The object \<^verbatim>\<open>pointToDensityGridData\<close> returns.\<close>

record 'b densityGridData =
  countsBuffer :: 'b
  maxCountBuffer :: 'b
  gridSize :: "num \<times> num"
  gridOrigin :: "num \<times> num"
  gridOffset :: "num \<times> num"

text \<open>
  \<^verbatim>\<open>pointToDensityGridData({data, getPosition, cellSizeMeters, gpuGridAggregator,
  gpuAggregation, fp64 = false})\<close>. The aggregator is the function
  \<^verbatim>\<open>gpuGridAggregator.run\<close>; a missing \<^verbatim>\<open>fp64\<close> is \<open>None\<close>.
\<close>

definition pointToDensityGridData ::
  "(num \<Rightarrow> num) \<Rightarrow> (num \<times> num \<times> num \<Rightarrow> 'm) \<Rightarrow> 'p list \<Rightarrow> ('p \<Rightarrow> num \<times> num) \<Rightarrow> num \<Rightarrow>
   ('m runArgs \<Rightarrow> 'b aggregatedData) \<Rightarrow> bool \<Rightarrow> bool option \<Rightarrow> 'b densityGridData" where
  "pointToDensityGridData fp64LowPart translate data getPosition cellSizeMeters
     gpuGridAggregator gpuAggregation fp64' =
     (let fp64 = (case fp64' of None \<Rightarrow> False | Some b \<Rightarrow> b);
          gridData = parseData fp64LowPart data getPosition;
          gridOffset = getGridOffset gridData cellSizeMeters;
          opts = getGPUAggregationParams translate gridData gridOffset;
          aggregatedData = gpuGridAggregator
            \<lparr>positions = opts.positions opts,
             positions64xyLow = opts.positions64xyLow opts,
             weights = opts.weights opts,
             cellSize = opts.cellSize opts,
             width = opts.width opts,
             height = opts.height opts,
             gridTransformMatrix = opts.gridTransformMatrix opts,
             useGPU = gpuAggregation,
             fp64 = fp64\<rparr>;
          gridSizeX = Math_ceil (jdiv (opts.width opts) (fst (opts.cellSize opts)));
          gridSizeY = Math_ceil (jdiv (opts.height opts) (snd (opts.cellSize opts)))
      in \<lparr>countsBuffer = aggregatedData.countsBuffer aggregatedData,
          maxCountBuffer = aggregatedData.maxCountBuffer aggregatedData,
          gridSize = (gridSizeX, gridSizeY),
          gridOrigin = opts.gridOrigin opts,
          gridOffset = (xOffset (opts.gridOffset opts), yOffset (opts.gridOffset opts))\<rparr>)"

section \<open>The offsets in double precision\<close>

text \<open>
  The engine evaluates the offset functions on IEEE-754 binary64 numbers: an operation
  returns its exact result rounded to the nearest double, ties to even. This section
  writes the rounding out for \<^verbatim>\<open>_calculateLatOffset\<close> and
  \<^verbatim>\<open>_calculateLonOffset\<close>; the suffix \<open>64\<close> marks the rounded operators and
  functions.
\<close>










section \<open>Alignment to a cell boundary\<close>

text \<open>
  On a finite value and a positive cell size the function returns the cell size times an
  integer: the floor of the quotient for a value that is not negative, and the ceiling of
  the quotient less one for a negative value.
\<close>

lemma alignToCellBoundary_Fin:
  assumes "0 < c"
  shows "alignToCellBoundary (Fin v) (Fin c) =
         Fin (of_int (if v < 0 then \<lceil>v / c\<rceil> - 1 else \<lfloor>v / c\<rfloor>) * c)"
proof (cases "v < 0")
  case True
  have "(\<bar>v\<bar> + c) / c = - (v / c) + 1"
    using assms True by (simp add: field_simps)
  then have fl: "\<lfloor>(\<bar>v\<bar> + c) / c\<rfloor> = 1 - \<lceil>v / c\<rceil>"
    using floor_add_int [of "- (v / c)" 1] by (simp add: ceiling_def add.commute)
  have "alignToCellBoundary (Fin v) (Fin c) = Fin (of_int \<lfloor>(\<bar>v\<bar> + c) / c\<rfloor> * c * (- 1))"
    using assms True by (simp add: alignToCellBoundary_def Let_def)
  also have "\<dots> = Fin (of_int (\<lceil>v / c\<rceil> - 1) * c)"
    unfolding fl by (simp add: algebra_simps)
  finally show ?thesis
    using True by simp
next
  case False
  then show ?thesis
    using assms by (simp add: alignToCellBoundary_def Let_def)
qed

lemma alignCell_index_mono:
  fixes c :: real
  assumes "0 < c" "v1 \<le> v2"
  shows "(if v1 < 0 then \<lceil>v1 / c\<rceil> - 1 else \<lfloor>v1 / c\<rfloor>)
         \<le> (if v2 < 0 then \<lceil>v2 / c\<rceil> - 1 else \<lfloor>v2 / c\<rfloor>)"
proof -
  have q: "v1 / c \<le> v2 / c"
    using assms by (simp add: divide_right_mono)
  show ?thesis
  proof (cases "v1 < 0")
    case True
    note v1 = this
    show ?thesis
    proof (cases "v2 < 0")
      case True
      with v1 ceiling_mono [OF q] show ?thesis by simp
    next
      case False
      have "v1 / c < 0" using v1 assms by (simp add: divide_neg_pos)
      then have "\<lceil>v1 / c\<rceil> \<le> 0" by (simp add: ceiling_le_iff)
      moreover have "0 \<le> \<lfloor>v2 / c\<rfloor>" using False assms by simp
      ultimately have "\<lceil>v1 / c\<rceil> - 1 \<le> \<lfloor>v2 / c\<rfloor>" by linarith
      then show ?thesis using v1 False by (simp only: if_True if_False)
    qed
  next
    case False
    with assms have "\<not> v2 < 0" by simp
    with False floor_mono [OF q] show ?thesis by simp
  qed
qed

text \<open>
  In exact arithmetic, on a value that is not negative the result is the cell boundary at
  or below the value, and aligning it again changes nothing. This is the range the grid
  origin is aligned in
  (\<^verbatim>\<open>lat + 90\<close>, \<^verbatim>\<open>lng + 180\<close>).
\<close>

lemma alignToCellBoundary_nonneg_bounds:
  assumes "0 < c" "0 \<le> v"
  shows "\<exists>a. alignToCellBoundary (Fin v) (Fin c) = Fin a \<and> a \<le> v \<and> v < a + c"
proof -
  have a: "alignToCellBoundary (Fin v) (Fin c) = Fin (of_int \<lfloor>v / c\<rfloor> * c)"
    using alignToCellBoundary_Fin [OF assms(1), of v] assms(2) by simp
  have "of_int \<lfloor>v / c\<rfloor> * c \<le> v"
    using floor_divide_lower [OF assms(1)] .
  moreover have "v < of_int \<lfloor>v / c\<rfloor> * c + c"
    using floor_divide_upper [OF assms(1), of v] by (simp add: algebra_simps)
  ultimately show ?thesis using a by blast
qed

lemma alignToCellBoundary_nonneg_idem:
  assumes "0 < c" "0 \<le> v"
  shows "alignToCellBoundary (alignToCellBoundary (Fin v) (Fin c)) (Fin c)
         = alignToCellBoundary (Fin v) (Fin c)"
proof -
  have a: "alignToCellBoundary (Fin v) (Fin c) = Fin (of_int \<lfloor>v / c\<rfloor> * c)"
    using alignToCellBoundary_Fin [OF assms(1), of v] assms(2) by simp
  have k: "0 \<le> \<lfloor>v / c\<rfloor>" using assms by simp
  then have nn: "\<not> real_of_int \<lfloor>v / c\<rfloor> * c < 0"
    using assms(1) by (simp add: not_less)
  have "real_of_int \<lfloor>v / c\<rfloor> * c / c = real_of_int \<lfloor>v / c\<rfloor>"
    using assms(1) by simp
  then have "\<lfloor>real_of_int \<lfloor>v / c\<rfloor> * c / c\<rfloor> = \<lfloor>v / c\<rfloor>"
    by simp
  then show ?thesis
    unfolding a using alignToCellBoundary_Fin [OF assms(1), of "of_int \<lfloor>v / c\<rfloor> * c"] nn
    by simp
qed

text \<open>
  A negative multiple \<open>k * c\<close> of the cell size is sent one cell down, to
  \<open>(k - 1) * c\<close>.
\<close>

lemma alignToCellBoundary_neg_multiple:
  assumes "0 < c" "k < 0"
  shows "alignToCellBoundary (Fin (of_int k * c)) (Fin c) = Fin (of_int (k - 1) * c)"
proof -
  have neg: "real_of_int k * c < 0"
    using assms by (simp add: mult_neg_pos)
  have "real_of_int k * c / c = real_of_int k"
    using assms(1) by simp
  then have "\<lceil>real_of_int k * c / c\<rceil> = k"
    by simp
  then show ?thesis
    using alignToCellBoundary_Fin [OF assms(1), of "of_int k * c"] neg by simp
qed

text \<open>
  Claim C1: for every finite \<open>v\<close> and positive cell size \<open>c\<close>,
  \<open>alignToCellBoundary v c \<le> v < alignToCellBoundary v c + c\<close>. The function does
  not meet this on a negative multiple of the cell size: \<open>-1\<close> with cell size \<open>1\<close>
  is aligned to \<open>-2\<close>, one cell below the boundary \<open>-1\<close> the value lies on, so
  \<open>v < result + c\<close> is \<open>-1 < -1\<close>. The branch for a value that is not negative
  keeps a multiple where it is.
\<close>

theorem alignToCellBoundary_negative_multiple:
  "alignToCellBoundary (Fin (- 1)) (Fin 1) = Fin (- 2)
   \<and> \<not> jlt (Fin (- 1)) (jadd (alignToCellBoundary (Fin (- 1)) (Fin 1)) (Fin 1))
   \<and> alignToCellBoundary (Fin 1) (Fin 1) = Fin 1"
  by (simp add: alignToCellBoundary_def Let_def)

text \<open>
  Claim C2: \<open>alignToCellBoundary\<close> is idempotent for every finite value and positive
  cell size. The function is not, on negative values: \<open>-1/2\<close> with cell size \<open>1\<close>
  is aligned to \<open>-1\<close>, and \<open>-1\<close> is aligned to \<open>-2\<close>.
\<close>

theorem alignToCellBoundary_twice_negative:
  "alignToCellBoundary (Fin (- 1 / 2)) (Fin 1) = Fin (- 1)
   \<and> alignToCellBoundary (alignToCellBoundary (Fin (- 1 / 2)) (Fin 1)) (Fin 1) = Fin (- 2)"
  by (simp add: alignToCellBoundary_def Let_def)

text \<open>
  Claim C3: \<open>alignToCellBoundary\<close> is monotonic: for a positive cell size \<open>c\<close> and
  finite values \<open>v1 \<le> v2\<close>, both results are finite and the result for \<open>v1\<close> is
  at most the result for \<open>v2\<close>.
\<close>

theorem alignToCellBoundary_mono:
  assumes "0 < c" "v1 \<le> v2"
  shows "\<exists>a1 a2. alignToCellBoundary (Fin v1) (Fin c) = Fin a1 \<and>
                 alignToCellBoundary (Fin v2) (Fin c) = Fin a2 \<and> a1 \<le> a2"
proof -
  let ?k = "\<lambda>v. if v < 0 then \<lceil>v / c\<rceil> - 1 else \<lfloor>v / c\<rfloor>"
  have "?k v1 \<le> ?k v2"
    using alignCell_index_mono [OF assms] .
  then have "real_of_int (?k v1) \<le> real_of_int (?k v2)"
    by (simp only: of_int_le_iff)
  then have "real_of_int (?k v1) * c \<le> real_of_int (?k v2) * c"
    using assms(1) by (simp only: mult_le_cancel_right_pos)
  then show ?thesis
    using alignToCellBoundary_Fin [OF assms(1)] by blast
qed

theorem alignToCellBoundary_mono_witness:
  "(0::real) < 1 \<and> (- 1::real) \<le> 1 / 2
   \<and> (\<exists>a1 a2. alignToCellBoundary (Fin (- 1)) (Fin 1) = Fin a1 \<and>
                alignToCellBoundary (Fin (1 / 2)) (Fin 1) = Fin a2 \<and> a1 \<le> a2)"
proof -
  have h1: "(0::real) < 1" by simp
  have h2: "(- 1::real) \<le> 1 / 2" by simp
  from alignToCellBoundary_mono [OF h1 h2] h1 h2 show ?thesis by blast
qed

section \<open>Grid origin, grid size and cell size\<close>

lemma getGPUAggregationParams_width:
  "opts.width (getGPUAggregationParams translate gd go) =
   jadd (jsub (lngMax gd) (lngMin gd)) (xOffset go)"
  by (simp add: getGPUAggregationParams_def Let_def)

lemma getGPUAggregationParams_height:
  "opts.height (getGPUAggregationParams translate gd go) =
   jadd (jsub (latMax gd) (latMin gd)) (yOffset go)"
  by (simp add: getGPUAggregationParams_def Let_def)

lemma getGPUAggregationParams_cellSize:
  "opts.cellSize (getGPUAggregationParams translate gd go) = (xOffset go, yOffset go)"
  by (simp add: getGPUAggregationParams_def Let_def)

lemma pointToDensityGridData_gridSize:
  "densityGridData.gridSize (pointToDensityGridData low translate data gp cs run gpu fp) =
   (let gd = parseData low data gp; go = getGridOffset gd cs;
        ps = getGPUAggregationParams translate gd go
    in (Math_ceil (jdiv (opts.width ps) (fst (opts.cellSize ps))),
        Math_ceil (jdiv (opts.height ps) (snd (opts.cellSize ps)))))"
  by (simp add: pointToDensityGridData_def Let_def)

text \<open>
  Claim C4: the grid origin is computed by shifting each lower bound into positive space,
  aligning it and shifting it back: \<open>originX = alignToCellBoundary (lngMin + 180) xOffset - 180\<close>
  and \<open>originY = alignToCellBoundary (latMin + 90) yOffset - 90\<close>, for every bounding
  box and every cell size; and the grid origin \<^verbatim>\<open>pointToDensityGridData\<close> returns is
  this one, for the scanned bounds and the cell size computed from them.
\<close>

theorem gridOrigin_shift_align_shift:
  "opts.gridOrigin (getGPUAggregationParams translate gd go) =
     (jsub (alignToCellBoundary (jadd (lngMin gd) (Fin 180)) (xOffset go)) (Fin 180),
      jsub (alignToCellBoundary (jadd (latMin gd) (Fin 90)) (yOffset go)) (Fin 90))
   \<and> densityGridData.gridOrigin
        (pointToDensityGridData low translate data gp cs run gpu fp) =
     opts.gridOrigin (getGPUAggregationParams translate (parseData low data gp)
        (getGridOffset (parseData low data gp) cs))"
  by (simp add: getGPUAggregationParams_def pointToDensityGridData_def Let_def)

text \<open>
  Claim C5: for a bounding box with finite bounds and positive cell sizes \<open>dx\<close>,
  \<open>dy\<close>, the width is \<open>(lngMax - lngMin) + dx\<close>, the height is
  \<open>(latMax - latMin) + dy\<close>, and the grid size \<^verbatim>\<open>pointToDensityGridData\<close>
  returns is \<open>(\<lceil>width / dx\<rceil>, \<lceil>height / dy\<rceil>)\<close>.
\<close>

theorem gridSize_padded_ceiling:
  assumes "lngMin gd = Fin xmin" "lngMax gd = Fin xmax"
    and "latMin gd = Fin ymin" "latMax gd = Fin ymax"
    and "xOffset go = Fin dx" "yOffset go = Fin dy" "0 < dx" "0 < dy"
  shows "opts.width (getGPUAggregationParams translate gd go) = Fin ((xmax - xmin) + dx)
     \<and> opts.height (getGPUAggregationParams translate gd go) = Fin ((ymax - ymin) + dy)
     \<and> (gd = parseData low data gp \<and> go = getGridOffset gd cs \<longrightarrow>
          densityGridData.gridSize (pointToDensityGridData low translate data gp cs run gpu fp) =
            (Fin (of_int \<lceil>((xmax - xmin) + dx) / dx\<rceil>),
             Fin (of_int \<lceil>((ymax - ymin) + dy) / dy\<rceil>)))"
proof (intro conjI impI)
  show w: "opts.width (getGPUAggregationParams translate gd go) = Fin ((xmax - xmin) + dx)"
    using assms by (simp add: getGPUAggregationParams_width jsub_def)
  show h: "opts.height (getGPUAggregationParams translate gd go) = Fin ((ymax - ymin) + dy)"
    using assms by (simp add: getGPUAggregationParams_height jsub_def)
  assume "gd = parseData low data gp \<and> go = getGridOffset gd cs"
  then have "densityGridData.gridSize (pointToDensityGridData low translate data gp cs run gpu fp) =
      (Math_ceil (jdiv (opts.width (getGPUAggregationParams translate gd go)) (xOffset go)),
       Math_ceil (jdiv (opts.height (getGPUAggregationParams translate gd go)) (yOffset go)))"
    by (simp add: pointToDensityGridData_gridSize Let_def getGPUAggregationParams_cellSize)
  also have "\<dots> = (Fin (of_int \<lceil>((xmax - xmin) + dx) / dx\<rceil>),
                     Fin (of_int \<lceil>((ymax - ymin) + dy) / dy\<rceil>))"
    unfolding w h using assms by simp
  finally show "densityGridData.gridSize
      (pointToDensityGridData low translate data gp cs run gpu fp) =
      (Fin (of_int \<lceil>((xmax - xmin) + dx) / dx\<rceil>),
       Fin (of_int \<lceil>((ymax - ymin) + dy) / dy\<rceil>))" .
qed

theorem gridSize_padded_ceiling_witness:
  "bounds (parseData (\<lambda>x. x) [(Fin 0, Fin 0), (Fin 3, Fin 0)] (\<lambda>p. p))
     = (Fin 0, Fin 0, Fin 0, Fin 3)
   \<and> getGridOffset (parseData (\<lambda>x. x) [(Fin 0, Fin 0), (Fin 3, Fin 0)] (\<lambda>p. p)) (Fin 6378000)
       = \<lparr>yOffset = Fin (180 / pi), xOffset = Fin (180 / pi)\<rparr>
   \<and> (0::real) < 180 / pi
   \<and> opts.width (getGPUAggregationParams (\<lambda>t. t)
         (parseData (\<lambda>x. x) [(Fin 0, Fin 0), (Fin 3, Fin 0)] (\<lambda>p. p))
         (getGridOffset (parseData (\<lambda>x. x) [(Fin 0, Fin 0), (Fin 3, Fin 0)] (\<lambda>p. p))
            (Fin 6378000)))
       = Fin (3 - 0 + 180 / pi)
   \<and> densityGridData.gridSize
        (pointToDensityGridData (\<lambda>x. x) (\<lambda>t. t) [(Fin 0, Fin 0), (Fin 3, Fin 0)] (\<lambda>p. p)
           (Fin 6378000) (\<lambda>a. \<lparr>aggregatedData.countsBuffer = (), maxCountBuffer = ()\<rparr>)
           True None)
       = (Fin (of_int \<lceil>(3 - 0 + 180 / pi) / (180 / pi)\<rceil>),
          Fin (of_int \<lceil>(0 - 0 + 180 / pi) / (180 / pi)\<rceil>))"
proof -
  let ?gd = "parseData (\<lambda>x. x) [(Fin 0, Fin 0), (Fin 3, Fin 0)] (\<lambda>p. p)"
  let ?go = "getGridOffset ?gd (Fin 6378000)"
  have b: "bounds ?gd = (Fin 0, Fin 0, Fin 0, Fin 3)"
    by (simp add: bounds_def parseData_def parseStep_def Let_def jgt_def)
  have o: "?go = \<lparr>yOffset = Fin (180 / pi), xOffset = Fin (180 / pi)\<rparr>"
    using b by (simp add: bounds_def getGridOffset_def calculateGridLatLonOffset_def
        calculateLatOffset_def calculateLonOffset_def R_EARTH_def Math_PI_def Let_def)
  have p: "(0::real) < 180 / pi" by simp
  have "lngMin ?gd = Fin 0" "lngMax ?gd = Fin 3" "latMin ?gd = Fin 0" "latMax ?gd = Fin 0"
    using b by (simp_all add: bounds_def)
  moreover have "xOffset ?go = Fin (180 / pi)" "yOffset ?go = Fin (180 / pi)"
    by (simp_all add: o)
  ultimately show ?thesis
    using gridSize_padded_ceiling [where gd = ?gd and go = ?go and low = "\<lambda>x. x"
        and gp = "\<lambda>p. p" and data = "[(Fin 0, Fin 0), (Fin 3, Fin 0)]" and cs = "Fin 6378000"
        and translate = "\<lambda>t. t" and dx = "180 / pi" and dy = "180 / pi"
        and xmin = 0 and xmax = 3 and ymin = 0 and ymax = 0
        and run = "\<lambda>a. \<lparr>aggregatedData.countsBuffer = (), maxCountBuffer = ()\<rparr>"
        and gpu = True and fp = None, OF _ _ _ _ _ _ p p] b o p
    by blast
qed

text \<open>
  Claim C6: the latitude cell size is \<open>(cellSizeMeters / R_EARTH) * (180 / \<pi>)\<close>,
  whatever the latitude; the longitude cell size is the latitude cell size divided by the
  cosine of the latitude in radians, and the latitude used is the mean
  \<open>(latMin + latMax) / 2\<close> of the scanned bounds.
\<close>

theorem gridOffset_formula:
  "yOffset (getGridOffset gd cs) = jmul (jdiv cs R_EARTH) (jdiv (Fin 180) Math_PI)
   \<and> yOffset (calculateGridLatLonOffset cs lat) = yOffset (calculateGridLatLonOffset cs lat')
   \<and> yOffset (getGridOffset gd (Fin m)) = Fin (m / 6378000 * (180 / pi))
   \<and> xOffset (getGridOffset gd cs) =
       jdiv (yOffset (getGridOffset gd cs))
         (Math_cos (jdiv (jmul (jdiv (jadd (latMin gd) (latMax gd)) (Fin 2)) Math_PI)
            (Fin 180)))"
  by (simp add: getGridOffset_def calculateGridLatLonOffset_def Let_def
      calculateLatOffset_def calculateLonOffset_def R_EARTH_def Math_PI_def)






subsection \<open>Rounding to a double\<close>















subsection \<open>The longitude offset on doubles\<close>







section \<open>The scan of the points\<close>

lemma parseStep_positions:
  "gridData.positions (parseStep low gp d s) =
   gridData.positions s @ [fst (gp d), snd (gp d)]"
  by (simp add: parseStep_def Let_def)

lemma parseStep_positions64xyLow:
  "gridData.positions64xyLow (parseStep low gp d s) =
   gridData.positions64xyLow s @ [low (fst (gp d)), low (snd (gp d))]"
  by (simp add: parseStep_def Let_def)

lemma parseStep_weights:
  "gridData.weights (parseStep low gp d s) = gridData.weights s @ [Fin 1]"
  by (simp add: parseStep_def Let_def)

lemma parseLoop_positions:
  "gridData.positions (parseLoop low gp ds s) =
   gridData.positions s @ concat (map (\<lambda>d. [fst (gp d), snd (gp d)]) ds)"
  by (induction ds arbitrary: s) (simp_all add: parseStep_positions)

lemma parseLoop_positions64xyLow:
  "gridData.positions64xyLow (parseLoop low gp ds s) =
   gridData.positions64xyLow s
     @ concat (map (\<lambda>d. [low (fst (gp d)), low (snd (gp d))]) ds)"
  by (induction ds arbitrary: s) (simp_all add: parseStep_positions64xyLow)

lemma parseLoop_weights:
  "gridData.weights (parseLoop low gp ds s) =
   gridData.weights s @ replicate (length ds) (Fin 1)"
  by (induction ds arbitrary: s) (simp_all add: parseStep_weights replicate_append_same)

lemma length_concat_pairs: "length (concat (map (\<lambda>d. [f d, g d]) ds)) = 2 * length ds"
  by (induction ds) simp_all

text \<open>
  Claim C8: for every input of \<open>N\<close> points and every accessor, the scan appends each
  point's longitude and latitude, their low parts and the weight \<open>1\<close>, whatever the
  coordinates are (NaN and the infinities included): the positions are the coordinates in
  input order, the low parts are \<open>fp64LowPart\<close> of them, every weight is \<open>1\<close>, and
  the lengths are \<open>2 * N\<close>, \<open>2 * N\<close> and \<open>N\<close>.
\<close>

theorem parseData_buffers:
  "gridData.positions (parseData low data gp)
     = concat (map (\<lambda>d. [fst (gp d), snd (gp d)]) data)
   \<and> gridData.positions64xyLow (parseData low data gp)
       = concat (map (\<lambda>d. [low (fst (gp d)), low (snd (gp d))]) data)
   \<and> gridData.weights (parseData low data gp) = replicate (length data) (Fin 1)
   \<and> length (gridData.positions (parseData low data gp)) = 2 * length data
   \<and> length (gridData.positions64xyLow (parseData low data gp)) = 2 * length data
   \<and> length (gridData.weights (parseData low data gp)) = length data"
  by (simp add: parseData_def parseLoop_positions parseLoop_positions64xyLow
      parseLoop_weights length_concat_pairs)

lemma parseStep_bounds_skip:
  "\<not> (isFinite (snd (gp d)) \<and> isFinite (fst (gp d))) \<Longrightarrow>
   bounds (parseStep low gp d s) = bounds s"
  by (auto simp add: parseStep_def Let_def bounds_def)

lemma parseStep_bounds_cong:
  "bounds s = bounds s' \<Longrightarrow> bounds (parseStep low gp d s) = bounds (parseStep low' gp d s')"
  by (simp add: parseStep_def Let_def bounds_def)

lemma parseLoop_bounds_filter:
  "bounds s = bounds s' \<Longrightarrow>
   bounds (parseLoop low gp ds s) =
   bounds (parseLoop low gp
     (filter (\<lambda>d. isFinite (snd (gp d)) \<and> isFinite (fst (gp d))) ds) s')"
  (is "_ \<Longrightarrow> _ = bounds (parseLoop low gp (filter ?P ds) s')")
proof (induction ds arbitrary: s s')
  case Nil
  then show ?case by simp
next
  case (Cons d ds)
  show ?case
  proof (cases "?P d")
    case True
    have "bounds (parseStep low gp d s) = bounds (parseStep low gp d s')"
      using Cons.prems by (rule parseStep_bounds_cong)
    then have "bounds (parseLoop low gp ds (parseStep low gp d s)) =
               bounds (parseLoop low gp (filter ?P ds) (parseStep low gp d s'))"
      by (rule Cons.IH)
    moreover have "filter ?P (d # ds) = d # filter ?P ds"
      using True by simp
    ultimately show ?thesis
      by (simp only: parseLoop.simps)
  next
    case False
    have "bounds (parseStep low gp d s) = bounds s"
      using False by (rule parseStep_bounds_skip)
    then have "bounds (parseStep low gp d s) = bounds s'"
      using Cons.prems by simp
    then have "bounds (parseLoop low gp ds (parseStep low gp d s)) =
               bounds (parseLoop low gp (filter ?P ds) s')"
      by (rule Cons.IH)
    moreover have "filter ?P (d # ds) = filter ?P ds"
      using False by simp
    ultimately show ?thesis
      by (simp only: parseLoop.simps)
  qed
qed

text \<open>
  Claim C9: the bounds are updated only by points whose latitude and longitude are both
  finite. The bounds of a scan are those of the scan of its fully finite points alone; one
  iteration on a point with a component that is not finite leaves the bounds as they were;
  and when no point is fully finite (the empty input included) the scan returns the
  initial bounds \<open>latMin = lngMin = +\<infinity>\<close>, \<open>latMax = lngMax = -\<infinity>\<close>. The scan has
  no failing branch.
\<close>

theorem parseData_bounds:
  "bounds (parseData low data gp) =
     bounds (parseData low
       (filter (\<lambda>d. isFinite (snd (gp d)) \<and> isFinite (fst (gp d))) data) gp)
   \<and> (\<not> (isFinite (snd (gp d)) \<and> isFinite (fst (gp d))) \<longrightarrow>
        bounds (parseStep low gp d s) = bounds s)
   \<and> ((\<forall>d \<in> set data. \<not> (isFinite (snd (gp d)) \<and> isFinite (fst (gp d)))) \<longrightarrow>
        bounds (parseData low data gp) = (PInf, NInf, PInf, NInf))"
proof (intro conjI impI)
  show "bounds (parseData low data gp) =
     bounds (parseData low
       (filter (\<lambda>d. isFinite (snd (gp d)) \<and> isFinite (fst (gp d))) data) gp)"
    unfolding parseData_def by (rule parseLoop_bounds_filter) simp
next
  assume "\<not> (isFinite (snd (gp d)) \<and> isFinite (fst (gp d)))"
  then show "bounds (parseStep low gp d s) = bounds s"
    by (rule parseStep_bounds_skip)
next
  assume "\<forall>d \<in> set data. \<not> (isFinite (snd (gp d)) \<and> isFinite (fst (gp d)))"
  then have "filter (\<lambda>d. isFinite (snd (gp d)) \<and> isFinite (fst (gp d))) data = []"
    by (simp add: filter_empty_conv)
  then have "bounds (parseData low data gp) = bounds (parseData low [] gp)"
    unfolding parseData_def
    using parseLoop_bounds_filter [OF refl, of low gp data] by simp
  then show "bounds (parseData low data gp) = (PInf, NInf, PInf, NInf)"
    by (simp add: parseData_def bounds_def)
qed

theorem parseData_bounds_witness:
  "\<not> isFinite NaN \<and> \<not> isFinite PInf
   \<and> bounds (parseData (\<lambda>x. x) [(NaN, Fin 1), (Fin 2, PInf)] (\<lambda>p. p))
       = (PInf, NInf, PInf, NInf)
   \<and> bounds (parseStep (\<lambda>x. x) (\<lambda>p. p) (NaN, Fin 1)
        (parseData (\<lambda>x. x) [(Fin 5, Fin 3)] (\<lambda>p. p))) = (Fin 3, Fin 3, Fin 5, Fin 5)"
  using parseData_bounds [where gp = "\<lambda>p. p" and d = "(NaN, Fin 1)" and low = "\<lambda>x. x"
      and s = "parseData (\<lambda>x. x) [(Fin 5, Fin 3)] (\<lambda>p. p)"
      and data = "[(NaN, Fin 1), (Fin 2, PInf)]"]
  by (simp add: bounds_def parseData_def parseStep_def Let_def jgt_def)

section \<open>Aligned values are multiples of the cell size\<close>

text \<open>
  Claim C10: for every finite value and positive cell size \<open>c\<close>, the aligned value is
  \<open>k * c\<close> for an integer \<open>k\<close>.
\<close>

theorem alignToCellBoundary_multiple:
  assumes "0 < c"
  shows "\<exists>k::int. alignToCellBoundary (Fin v) (Fin c) = Fin (of_int k * c)"
  using alignToCellBoundary_Fin [OF assms] by blast

theorem alignToCellBoundary_multiple_witness:
  "(0::real) < 2 \<and> (\<exists>k::int. alignToCellBoundary (Fin (- 3)) (Fin 2) = Fin (of_int k * 2))"
proof -
  have h: "(0::real) < 2" by simp
  from alignToCellBoundary_multiple [OF h, of "- 3"] h show ?thesis by blast
qed

end
